theory Spec2Isabelle
  imports Main "HOL-Library.AList" "HOL-Library.Multiset"
begin

section \<open>Values of the persisted document\<close>

text \<open>
  The application keeps everything in one JSON file and works on the Python values that
  \<^verbatim>\<open>json.load\<close> returns: \<^verbatim>\<open>None\<close>, booleans, numbers, strings, lists and dictionaries
  with string keys. A dictionary is an association list in insertion order; looking a key
  up is \<open>map_of\<close>, assigning to a key is \<open>AList.update\<close> (an existing key keeps its place, a
  new key goes to the end, as in Python). Numbers are the integers: the application
  writes no others, and the floating-point numbers that a file could also hold are left
  out. A string is the list of its characters.
\<close>

datatype json =
    JNull
  | JBool bool
  | JInt int
  | JStr string
  | JList "json list"
  | JObj "(string \<times> json) list"

text \<open>The exceptions that the modelled statements can raise.\<close>

datatype py_error = TypeError | KeyError | AttributeError

text \<open>Sequencing of statements that may raise: the first exception ends the run.\<close>

definition bind_result :: "'e + 'a \<Rightarrow> ('a \<Rightarrow> 'e + 'b) \<Rightarrow> 'e + 'b" where
  "bind_result r f = (case r of Inl e \<Rightarrow> Inl e | Inr x \<Rightarrow> f x)"

text \<open>Truth value of an object, as \<^verbatim>\<open>not x\<close> and \<^verbatim>\<open>if x:\<close> read it.\<close>

fun truthy :: "json \<Rightarrow> bool" where
  "truthy JNull = False"
| "truthy (JBool b) = b"
| "truthy (JInt n) = (n \<noteq> 0)"
| "truthy (JStr s) = (s \<noteq> [])"
| "truthy (JList xs) = (xs \<noteq> [])"
| "truthy (JObj d) = (d \<noteq> [])"

text \<open>
  Python's \<^verbatim>\<open>==\<close> on these values: \<^verbatim>\<open>True == 1\<close> and \<^verbatim>\<open>False == 0\<close> hold, lists are compared
  element by element, dictionaries key by key whatever the order of insertion.
\<close>

fun py_eq :: "json \<Rightarrow> json \<Rightarrow> bool" where
  "py_eq JNull JNull = True"
| "py_eq (JBool a) (JBool b) = (a = b)"
| "py_eq (JBool a) (JInt n) = ((if a then 1 else 0) = n)"
| "py_eq (JInt n) (JBool a) = ((if a then 1 else 0) = n)"
| "py_eq (JInt m) (JInt n) = (m = n)"
| "py_eq (JStr s) (JStr t) = (s = t)"
| "py_eq (JList xs) (JList ys) = list_all2 py_eq xs ys"
| "py_eq (JObj a) (JObj b) =
     (length a = length b \<and>
      list_all (\<lambda>(k, v). case map_of b k of None \<Rightarrow> False | Some w \<Rightarrow> py_eq v w) a)"
| "py_eq _ _ = False"

text \<open>\<^verbatim>\<open>k in s\<close> on two strings: \<open>k\<close> occurs in \<open>s\<close> as a contiguous piece.\<close>

fun is_substring :: "string \<Rightarrow> string \<Rightarrow> bool" where
  "is_substring k [] = (k = [])"
| "is_substring k (c # cs) = (take (length k) (c # cs) = k \<or> is_substring k cs)"

text \<open>
  \<^verbatim>\<open>k in x\<close> for a string \<open>k\<close>: a key test on a dictionary, a membership test on a list
  (only an equal string is equal to a string), a substring test on a string, and
  \<^verbatim>\<open>TypeError\<close> on \<^verbatim>\<open>None\<close>, a boolean or a number.
\<close>

fun py_in :: "string \<Rightarrow> json \<Rightarrow> py_error + bool" where
  "py_in k (JObj d) = Inr (map_of d k \<noteq> None)"
| "py_in k (JList xs) = Inr (JStr k \<in> set xs)"
| "py_in k (JStr s) = Inr (is_substring k s)"
| "py_in k JNull = Inl TypeError"
| "py_in k (JBool b) = Inl TypeError"
| "py_in k (JInt n) = Inl TypeError"

text \<open>\<^verbatim>\<open>x[k]\<close> for a string \<open>k\<close>: only a dictionary can be subscripted by a string.\<close>

fun getitem :: "json \<Rightarrow> string \<Rightarrow> py_error + json" where
  "getitem (JObj d) k = (case map_of d k of None \<Rightarrow> Inl KeyError | Some v \<Rightarrow> Inr v)"
| "getitem JNull k = Inl TypeError"
| "getitem (JBool b) k = Inl TypeError"
| "getitem (JInt n) k = Inl TypeError"
| "getitem (JStr s) k = Inl TypeError"
| "getitem (JList xs) k = Inl TypeError"

text \<open>\<^verbatim>\<open>x.get(k, default)\<close>: only a dictionary has the method.\<close>

fun dict_get :: "json \<Rightarrow> string \<Rightarrow> json \<Rightarrow> py_error + json" where
  "dict_get (JObj d) k dflt = Inr (case map_of d k of None \<Rightarrow> dflt | Some v \<Rightarrow> v)"
| "dict_get JNull k dflt = Inl AttributeError"
| "dict_get (JBool b) k dflt = Inl AttributeError"
| "dict_get (JInt n) k dflt = Inl AttributeError"
| "dict_get (JStr s) k dflt = Inl AttributeError"
| "dict_get (JList xs) k dflt = Inl AttributeError"

text \<open>
  \<^verbatim>\<open>for x in v\<close>: a list yields its elements, a dictionary its keys, a string its
  characters as one-character strings; nothing else can be iterated.
\<close>

fun py_iter :: "json \<Rightarrow> py_error + json list" where
  "py_iter (JList xs) = Inr xs"
| "py_iter (JObj d) = Inr (map (\<lambda>kv. JStr (fst kv)) d)"
| "py_iter (JStr s) = Inr (map (\<lambda>c. JStr [c]) s)"
| "py_iter JNull = Inl TypeError"
| "py_iter (JBool b) = Inl TypeError"
| "py_iter (JInt n) = Inl TypeError"

text \<open>A client record, a task and a note are dictionaries.\<close>

fun is_dict :: "json \<Rightarrow> bool" where
  "is_dict (JObj d) = True"
| "is_dict JNull = False"
| "is_dict (JBool b) = False"
| "is_dict (JInt n) = False"
| "is_dict (JStr s) = False"
| "is_dict (JList xs) = False"

section \<open>Record store: \<^verbatim>\<open>load_data\<close> and \<^verbatim>\<open>save_data\<close>\<close>

text \<open>
  What \<^verbatim>\<open>load_data\<close> can find at \<^verbatim>\<open>DB_FILE\<close>: no file; a file on which \<^verbatim>\<open>json.load\<close> raises
  \<^verbatim>\<open>JSONDecodeError\<close>; a file that \<^verbatim>\<open>json.load\<close> parses to a value.
\<close>

datatype db_file = Missing | Malformed | Document json

definition empty_document :: json where
  "empty_document = JObj [(''clients'', JList [])]"

text \<open>
  \<^verbatim>\<open>load_data\<close>. The \<^verbatim>\<open>except\<close> clause catches \<^verbatim>\<open>json.JSONDecodeError\<close> only, so an exception
  of the test \<^verbatim>\<open>"clients" not in data\<close> leaves the function.
\<close>

fun load_data :: "db_file \<Rightarrow> py_error + json" where
  "load_data Missing = Inr empty_document"
| "load_data Malformed = Inr empty_document"
| "load_data (Document data) =
     bind_result (py_in ''clients'' data)
       (\<lambda>present. if \<not> present then Inr empty_document else Inr data)"

text \<open>
  \<^verbatim>\<open>save_data\<close>, returning the file it leaves behind: \<^verbatim>\<open>json.dump\<close> writes the value, and
  reading the file again parses to it.
\<close>

definition save_data :: "json \<Rightarrow> py_error + db_file" where
  "save_data data =
     bind_result (py_in ''clients'' data)
       (\<lambda>present. Inr (Document (if \<not> present then empty_document else data)))"

section \<open>Start of a run: loading and healing the clients\<close>

text \<open>
  The loop at the top of the script, for one client that is a dictionary. \<open>today\<close> is what
  \<^verbatim>\<open>datetime.now().strftime("%Y-%m-%d")\<close> returns and \<open>uuid\<close> what \<^verbatim>\<open>str(uuid.uuid4())\<close> returns
  when this iteration evaluates them. \<open>set_if_missing k v\<close> is the statement
  \<^verbatim>\<open>if k not in client: client[k] = v\<close>, and \<open>set_if_missing_or_falsy k v\<close> the statement
  \<^verbatim>\<open>if k not in client or not client[k]: client[k] = v\<close>.
\<close>

definition set_if_missing :: "string \<Rightarrow> json \<Rightarrow> (string \<times> json) list \<Rightarrow> (string \<times> json) list" where
  "set_if_missing k v d = (if map_of d k = None then AList.update k v d else d)"

definition set_if_missing_or_falsy :: "string \<Rightarrow> json \<Rightarrow> (string \<times> json) list \<Rightarrow> (string \<times> json) list" where
  "set_if_missing_or_falsy k v d =
     (if (case map_of d k of None \<Rightarrow> True | Some w \<Rightarrow> \<not> truthy w) then AList.update k v d else d)"

definition heal_dict :: "string \<Rightarrow> string \<Rightarrow> (string \<times> json) list \<Rightarrow> (string \<times> json) list" where
  "heal_dict today uuid d0 =
    (let d1 = set_if_missing ''date_added'' (JStr today) d0;
         d2 = set_if_missing ''value'' (JInt 0) d1;
         d3 = set_if_missing ''source'' (JStr ''Direct'') d2;
         d4 = set_if_missing_or_falsy ''id'' (JStr (take 8 uuid)) d3;
         d5 = set_if_missing ''follow_up_date'' (JStr []) d4;
         d6 = set_if_missing ''tags'' (JList []) d5
     in d6)"

text \<open>
  A client that is no dictionary ends the loop with \<^verbatim>\<open>TypeError\<close>: on \<^verbatim>\<open>None\<close>, a boolean or
  a number the first \<^verbatim>\<open>in\<close> test raises it; on a string or a list either an item assignment
  with a string key raises it or, when all six tests find their word, \<^verbatim>\<open>client["id"]\<close> does.
\<close>

fun heal_client :: "string \<Rightarrow> string \<Rightarrow> json \<Rightarrow> py_error + json" where
  "heal_client today uuid (JObj d) = Inr (JObj (heal_dict today uuid d))"
| "heal_client today uuid JNull = Inl TypeError"
| "heal_client today uuid (JBool b) = Inl TypeError"
| "heal_client today uuid (JInt n) = Inl TypeError"
| "heal_client today uuid (JStr s) = Inl TypeError"
| "heal_client today uuid (JList xs) = Inl TypeError"

text \<open>
  The loop over the clients; \<open>today i\<close> and \<open>uuid4 i\<close> are the date and the UUID string
  that the iteration for the client at position \<open>i\<close> obtains.
\<close>

fun heal_clients :: "(nat \<Rightarrow> string) \<Rightarrow> (nat \<Rightarrow> string) \<Rightarrow> nat \<Rightarrow> json list \<Rightarrow> py_error + json list" where
  "heal_clients today uuid4 i [] = Inr []"
| "heal_clients today uuid4 i (c # cs) =
     bind_result (heal_client (today i) (uuid4 i) c) (\<lambda>c'.
     bind_result (heal_clients today uuid4 (Suc i) cs) (\<lambda>cs'. Inr (c' # cs')))"

text \<open>
  \<^verbatim>\<open>data = load_data()\<close>, \<^verbatim>\<open>clients = data.get("clients", [])\<close> and the healing loop: what
  every later part of the script works on.
\<close>

definition load_clients :: "(nat \<Rightarrow> string) \<Rightarrow> (nat \<Rightarrow> string) \<Rightarrow> db_file \<Rightarrow> py_error + json list" where
  "load_clients today uuid4 file =
     bind_result (load_data file) (\<lambda>data.
     bind_result (dict_get data ''clients'' (JList [])) (\<lambda>v.
     bind_result (py_iter v) (\<lambda>cs. heal_clients today uuid4 0 cs)))"

section \<open>Client repository\<close>

text \<open>
  The state a handler works on: the list \<^verbatim>\<open>clients\<close> in memory, as it is when the
  handler runs (loaded, healed and sorted for display), and the file. A handler that
  raises ends the run; the list in memory is then dropped and the file is as it was,
  since every handler writes as its last step. The button or form of a handler is taken
  as pressed.
\<close>

record app_state =
  clients :: "json list"
  stored :: db_file

text \<open>
  \<^verbatim>\<open>next((c for c in clients if c["id"] == wanted), None)\<close>; the position of the client found
  stands for the reference to it.
\<close>

fun find_client :: "json list \<Rightarrow> json \<Rightarrow> py_error + nat option" where
  "find_client [] wanted = Inr None"
| "find_client (c # cs) wanted =
     bind_result (getitem c ''id'') (\<lambda>v.
       if py_eq v wanted then Inr (Some 0)
       else bind_result (find_client cs wanted) (\<lambda>r. Inr (map_option Suc r)))"

text \<open>The values of the edit form when it is submitted.\<close>

record client_form =
  new_name :: string
  new_phone :: string
  new_email :: string
  new_status :: string
  new_value :: int
  new_source :: string
  new_tags :: "string list"
  new_follow_up :: string

definition apply_form :: "client_form \<Rightarrow> (string \<times> json) list \<Rightarrow> (string \<times> json) list" where
  "apply_form f d0 =
    (let d1 = AList.update ''name'' (JStr (new_name f)) d0;
         d2 = AList.update ''phone'' (JStr (new_phone f)) d1;
         d3 = AList.update ''email'' (JStr (new_email f)) d2;
         d4 = AList.update ''status'' (JStr (new_status f)) d3;
         d5 = AList.update ''value'' (JInt (new_value f)) d4;
         d6 = AList.update ''source'' (JStr (new_source f)) d5;
         d7 = AList.update ''tags'' (JList (map JStr (new_tags f))) d6;
         d8 = AList.update ''follow_up_date'' (JStr (new_follow_up f)) d7
     in d8)"

text \<open>
  The handler of the button "Update Client" for the client selected by \<open>selected_id\<close>;
  \<open>new_follow_up\<close> is the date of the form already formatted.
\<close>

definition update_client :: "app_state \<Rightarrow> string \<Rightarrow> client_form \<Rightarrow> py_error + app_state" where
  "update_client st selected_id f =
     bind_result (find_client (clients st) (JStr selected_id)) (\<lambda>found.
       case found of
         None \<Rightarrow> Inr st
       | Some i \<Rightarrow>
           if \<not> truthy (clients st ! i) then Inr st
           else (case clients st ! i of
               JObj d \<Rightarrow>
                 (let cs' = (clients st)[i := JObj (apply_form f d)]
                  in bind_result (save_data (JObj [(''clients'', JList cs')]))
                       (\<lambda>file. Inr \<lparr>clients = cs', stored = file\<rparr>))
             | _ \<Rightarrow> Inl TypeError))"

text \<open>\<^verbatim>\<open>[c for c in clients if c["id"] != selected_id]\<close>\<close>

fun remove_by_id :: "json list \<Rightarrow> json \<Rightarrow> py_error + json list" where
  "remove_by_id [] wanted = Inr []"
| "remove_by_id (c # cs) wanted =
     bind_result (getitem c ''id'') (\<lambda>v.
     bind_result (remove_by_id cs wanted) (\<lambda>r.
       Inr (if py_eq v wanted then r else c # r)))"

text \<open>
  The handler of the button "Delete Permanently", with \<open>confirm_delete\<close> the text typed
  into the confirmation field.
\<close>

definition delete_client :: "app_state \<Rightarrow> string \<Rightarrow> string \<Rightarrow> py_error + app_state" where
  "delete_client st selected_id confirm_delete =
     bind_result (find_client (clients st) (JStr selected_id)) (\<lambda>found.
       case found of
         None \<Rightarrow> Inr st
       | Some i \<Rightarrow>
           if \<not> truthy (clients st ! i) then Inr st
           else bind_result (getitem (clients st ! i) ''name'') (\<lambda>name.
             if py_eq (JStr confirm_delete) name
             then bind_result (remove_by_id (clients st) (JStr selected_id)) (\<lambda>cs'.
                  bind_result (save_data (JObj [(''clients'', JList cs')]))
                    (\<lambda>file. Inr \<lparr>clients = cs', stored = file\<rparr>))
             else Inr st))"

section \<open>Tasks\<close>

text \<open>An entry of \<^verbatim>\<open>all_tasks\<close>: a dictionary with these six keys.\<close>

record task_row =
  client_id :: json
  client_name :: json
  task :: json
  completed :: json
  due_date :: json
  priority :: json

text \<open>A comprehension whose element expression may raise.\<close>

fun map_result :: "('a \<Rightarrow> 'e + 'b) \<Rightarrow> 'a list \<Rightarrow> 'e + 'b list" where
  "map_result f [] = Inr []"
| "map_result f (x # xs) =
     bind_result (f x) (\<lambda>y. bind_result (map_result f xs) (\<lambda>ys. Inr (y # ys)))"

definition task_row_of :: "json \<Rightarrow> json \<Rightarrow> py_error + task_row" where
  "task_row_of c t =
     bind_result (getitem c ''id'') (\<lambda>cid.
     bind_result (getitem c ''name'') (\<lambda>cname.
     bind_result (getitem t ''task'') (\<lambda>descr.
     bind_result (dict_get t ''completed'' (JBool False)) (\<lambda>done.
     bind_result (dict_get t ''due_date'' (JStr [])) (\<lambda>due.
     bind_result (dict_get t ''priority'' (JStr ''Medium'')) (\<lambda>prio.
       Inr \<lparr>client_id = cid, client_name = cname, task = descr,
            completed = done, due_date = due, priority = prio\<rparr>))))))"

definition tasks_of_client :: "json \<Rightarrow> py_error + task_row list" where
  "tasks_of_client c =
     bind_result (dict_get c ''tasks'' (JList [])) (\<lambda>v.
     bind_result (py_iter v) (\<lambda>ts. map_result (task_row_of c) ts))"

definition all_tasks :: "json list \<Rightarrow> py_error + task_row list" where
  "all_tasks cs = bind_result (map_result tasks_of_client cs) (\<lambda>rows. Inr (concat rows))"

text \<open>
  \<^verbatim>\<open>priority_order.get(p, 1)\<close> with \<^verbatim>\<open>priority_order = {"High": 0, "Medium": 1, "Low": 2}\<close>:
  a list or a dictionary cannot be hashed, every other value that is no key gives 1.
\<close>

fun priority_order_get :: "json \<Rightarrow> py_error + nat" where
  "priority_order_get (JStr s) =
     Inr (if s = ''High'' then 0 else if s = ''Medium'' then 1 else if s = ''Low'' then 2 else 1)"
| "priority_order_get (JList xs) = Inl TypeError"
| "priority_order_get (JObj d) = Inl TypeError"
| "priority_order_get JNull = Inr 1"
| "priority_order_get (JBool b) = Inr 1"
| "priority_order_get (JInt n) = Inr 1"

text \<open>
  \<^verbatim>\<open>sorted(xs, key=f)\<close>: the keys are computed once, in order, then the list is sorted by
  them with a stable sort.
\<close>

definition py_sorted :: "('a \<Rightarrow> py_error + nat) \<Rightarrow> 'a list \<Rightarrow> py_error + 'a list" where
  "py_sorted f xs =
     bind_result (map_result f xs) (\<lambda>ks. Inr (map snd (sort_key fst (zip ks xs))))"

definition sort_by_priority :: "task_row list \<Rightarrow> py_error + task_row list" where
  "sort_by_priority rows = py_sorted (\<lambda>x. priority_order_get (priority x)) rows"

text \<open>
  The sort key of an entry as a number: what \<^verbatim>\<open>priority_order.get\<close> returns for its
  priority (0 for High, 1 for Medium, 2 for Low, 1 for anything else).
\<close>

definition priority_rank :: "task_row \<Rightarrow> nat" where
  "priority_rank x = (case priority_order_get (priority x) of Inl e \<Rightarrow> 1 | Inr k \<Rightarrow> k)"

text \<open>The values that can be looked up in a dictionary: all but lists and dictionaries.\<close>

fun hashable :: "json \<Rightarrow> bool" where
  "hashable (JList xs) = False"
| "hashable (JObj d) = False"
| "hashable JNull = True"
| "hashable (JBool b) = True"
| "hashable (JInt n) = True"
| "hashable (JStr s) = True"

text \<open>
  \<^verbatim>\<open>next((i for i, t in enumerate(ts) if t["task"] == wanted), None)\<close>
\<close>

fun find_task :: "json list \<Rightarrow> json \<Rightarrow> py_error + nat option" where
  "find_task [] wanted = Inr None"
| "find_task (t # ts) wanted =
     bind_result (getitem t ''task'') (\<lambda>v.
       if py_eq v wanted then Inr (Some 0)
       else bind_result (find_task ts wanted) (\<lambda>r. Inr (map_option Suc r)))"

text \<open>
  The handler of the delete button shown beside the entry \<open>row\<close> of the task list.
  \<^verbatim>\<open>client["tasks"].pop(task_idx)\<close> is reached only with a list under \<^verbatim>\<open>tasks\<close>.
\<close>

definition delete_task :: "app_state \<Rightarrow> task_row \<Rightarrow> py_error + app_state" where
  "delete_task st row =
     bind_result (find_client (clients st) (client_id row)) (\<lambda>found.
       case found of
         None \<Rightarrow> Inr st
       | Some i \<Rightarrow>
           if \<not> truthy (clients st ! i) then Inr st
           else bind_result (dict_get (clients st ! i) ''tasks'' (JList [])) (\<lambda>v.
                bind_result (py_iter v) (\<lambda>ts.
                bind_result (find_task ts (task row)) (\<lambda>task_idx.
                  case task_idx of
                    None \<Rightarrow> Inr st
                  | Some k \<Rightarrow>
                      (case (clients st ! i, v) of
                         (JObj d, JList xs) \<Rightarrow>
                           (let d' = AList.update ''tasks'' (JList (take k xs @ drop (Suc k) xs)) d;
                                cs' = (clients st)[i := JObj d']
                            in bind_result (save_data (JObj [(''clients'', JList cs')]))
                                 (\<lambda>file. Inr \<lparr>clients = cs', stored = file\<rparr>))
                       | _ \<Rightarrow> Inl AttributeError)))))"

section \<open>Notes\<close>

text \<open>
  The handler of the form "Add Note" for the client selected by \<open>selected_client_id\<close>;
  \<open>now\<close> is what \<^verbatim>\<open>datetime.now().strftime("%Y-%m-%d %H:%M")\<close> returns and \<open>uuid\<close> what
  \<^verbatim>\<open>str(uuid.uuid4())\<close> returns.
\<close>

definition add_note :: "app_state \<Rightarrow> string \<Rightarrow> string \<Rightarrow> string \<Rightarrow> string \<Rightarrow> py_error + app_state" where
  "add_note st selected_client_id note_text now uuid =
     bind_result (find_client (clients st) (JStr selected_client_id)) (\<lambda>found.
       case found of
         None \<Rightarrow> Inr st
       | Some i \<Rightarrow>
           if \<not> truthy (clients st ! i) then Inr st
           else if note_text = [] then Inr st
           else (case clients st ! i of
               JObj d \<Rightarrow>
                 (let d1 = (if map_of d ''notes'' = None
                            then AList.update ''notes'' (JList []) d else d);
                      new_note = JObj [(''text'', JStr note_text), (''date'', JStr now),
                                       (''id'', JStr (take 8 uuid))]
                  in case map_of d1 ''notes'' of
                       Some (JList ns) \<Rightarrow>
                         (let d2 = AList.update ''notes'' (JList (new_note # ns)) d1;
                              cs' = (clients st)[i := JObj d2]
                          in bind_result (save_data (JObj [(''clients'', JList cs')]))
                               (\<lambda>file. Inr \<lparr>clients = cs', stored = file\<rparr>))
                     | _ \<Rightarrow> Inl AttributeError)
             | _ \<Rightarrow> Inl TypeError))"

section \<open>Dashboard\<close>

text \<open>\<^verbatim>\<open>sum(1 for c in clients if c["status"] == s)\<close>\<close>

definition count_status :: "json list \<Rightarrow> string \<Rightarrow> py_error + nat" where
  "count_status cs s =
     bind_result (map_result (\<lambda>c. getitem c ''status'') cs)
       (\<lambda>vs. Inr (length (filter (\<lambda>v. py_eq v (JStr s)) vs)))"

definition num_clients :: "json list \<Rightarrow> nat" where
  "num_clients cs = length cs"

text \<open>The dictionary \<^verbatim>\<open>status_counts\<close> that the status chart is drawn from.\<close>

definition status_counts :: "json list \<Rightarrow> py_error + (string \<times> nat) list" where
  "status_counts cs =
     bind_result (count_status cs ''Lead'') (\<lambda>num_leads.
     bind_result (count_status cs ''Active'') (\<lambda>num_active.
     bind_result (count_status cs ''Inactive'') (\<lambda>num_inactive.
       Inr [(''Lead'', num_leads), (''Active'', num_active), (''Inactive'', num_inactive)])))"

section \<open>Basic facts\<close>

lemma map_of_set_if_missing:
  "map_of (set_if_missing k v d) k' =
     (if k' = k then (case map_of d k of None \<Rightarrow> Some v | Some w \<Rightarrow> Some w) else map_of d k')"
  by (simp add: set_if_missing_def update_conv' split: option.splits)

lemma map_of_set_if_missing_or_falsy:
  "map_of (set_if_missing_or_falsy k v d) k' =
     (if k' = k then (case map_of d k of None \<Rightarrow> Some v | Some w \<Rightarrow> if truthy w then Some w else Some v)
      else map_of d k')"
  by (simp add: set_if_missing_or_falsy_def update_conv' split: option.splits)

lemmas heal_simps = heal_dict_def Let_def map_of_set_if_missing map_of_set_if_missing_or_falsy

lemma heal_dict_date_added:
  "map_of (heal_dict today uuid d) ''date_added'' =
     (case map_of d ''date_added'' of None \<Rightarrow> Some (JStr today) | Some v \<Rightarrow> Some v)"
  by (simp add: heal_simps)

lemma heal_dict_value:
  "map_of (heal_dict today uuid d) ''value'' =
     (case map_of d ''value'' of None \<Rightarrow> Some (JInt 0) | Some v \<Rightarrow> Some v)"
  by (simp add: heal_simps)

lemma heal_dict_source:
  "map_of (heal_dict today uuid d) ''source'' =
     (case map_of d ''source'' of None \<Rightarrow> Some (JStr ''Direct'') | Some v \<Rightarrow> Some v)"
  by (simp add: heal_simps)

lemma heal_dict_id:
  "map_of (heal_dict today uuid d) ''id'' =
     (case map_of d ''id'' of None \<Rightarrow> Some (JStr (take 8 uuid))
      | Some v \<Rightarrow> if truthy v then Some v else Some (JStr (take 8 uuid)))"
  by (simp add: heal_simps)

lemma heal_dict_follow_up_date:
  "map_of (heal_dict today uuid d) ''follow_up_date'' =
     (case map_of d ''follow_up_date'' of None \<Rightarrow> Some (JStr []) | Some v \<Rightarrow> Some v)"
  by (simp add: heal_simps)

lemma heal_dict_tags:
  "map_of (heal_dict today uuid d) ''tags'' =
     (case map_of d ''tags'' of None \<Rightarrow> Some (JList []) | Some v \<Rightarrow> Some v)"
  by (simp add: heal_simps)

lemma heal_dict_other:
  "k \<notin> {''date_added'', ''value'', ''source'', ''id'', ''follow_up_date'', ''tags''} \<Longrightarrow>
   map_of (heal_dict today uuid d) k = map_of d k"
  by (simp add: heal_simps)

lemma bind_result_Inr [simp]: "bind_result (Inr x) f = f x"
  by (simp add: bind_result_def)

lemma bind_result_Inl [simp]: "bind_result (Inl e) f = Inl e"
  by (simp add: bind_result_def)

lemma is_dict_obtain: "is_dict c \<Longrightarrow> \<exists>d. c = JObj d"
  by (cases c) simp_all

lemma heal_clients_dicts:
  "list_all is_dict cs \<Longrightarrow>
   \<exists>cs'. heal_clients today uuid4 n cs = Inr cs' \<and> length cs' = length cs \<and>
     (\<forall>i<length cs. \<exists>d. cs ! i = JObj d \<and>
        cs' ! i = JObj (heal_dict (today (n + i)) (uuid4 (n + i)) d))"
proof (induction cs arbitrary: n)
  case Nil
  then show ?case by simp
next
  case (Cons c cs)
  from Cons.prems obtain d where c: "c = JObj d"
    using is_dict_obtain by auto
  from Cons.prems have "list_all is_dict cs" by simp
  from Cons.IH [OF this, of "Suc n"] obtain cs' where
    h: "heal_clients today uuid4 (Suc n) cs = Inr cs'" "length cs' = length cs"
       "\<forall>i<length cs. \<exists>d. cs ! i = JObj d \<and>
           cs' ! i = JObj (heal_dict (today (Suc n + i)) (uuid4 (Suc n + i)) d)"
    by blast
  let ?out = "JObj (heal_dict (today n) (uuid4 n) d) # cs'"
  have run: "heal_clients today uuid4 n (c # cs) = Inr ?out"
    using c h(1) by simp
  have each: "\<exists>d'. (c # cs) ! i = JObj d' \<and>
        ?out ! i = JObj (heal_dict (today (n + i)) (uuid4 (n + i)) d')"
    if "i < length (c # cs)" for i
  proof (cases i)
    case 0
    then show ?thesis using c by simp
  next
    case (Suc j)
    with that have "j < length cs" by simp
    with h(3) obtain d' where "cs ! j = JObj d'"
      "cs' ! j = JObj (heal_dict (today (Suc n + j)) (uuid4 (Suc n + j)) d')" by blast
    then show ?thesis using Suc by simp
  qed
  show ?case using run each h(2) by simp
qed

lemma load_clients_dicts:
  assumes "map_of doc ''clients'' = Some (JList raw)" and "list_all is_dict raw"
  shows "\<exists>cs. load_clients today uuid4 (Document (JObj doc)) = Inr cs \<and> length cs = length raw \<and>
     (\<forall>i<length raw. \<exists>d. raw ! i = JObj d \<and>
        cs ! i = JObj (heal_dict (today i) (uuid4 i) d))"
proof -
  have "load_clients today uuid4 (Document (JObj doc)) = heal_clients today uuid4 0 raw"
    using assms(1) by (simp add: load_clients_def)
  then show ?thesis
    using heal_clients_dicts [OF assms(2), of today uuid4 0] by simp
qed


section \<open>Record store: loading and saving\<close>

lemma load_data_missing: "load_data Missing = Inr (JObj [(''clients'', JList [])])"
  by (simp add: empty_document_def)

lemma load_data_malformed: "load_data Malformed = Inr (JObj [(''clients'', JList [])])"
  by (simp add: empty_document_def)

lemma load_data_no_clients_key:
  "map_of doc ''clients'' = None \<Longrightarrow>
   load_data (Document (JObj doc)) = Inr (JObj [(''clients'', JList [])])"
  by (simp add: empty_document_def)

lemma save_data_no_clients_key:
  "map_of doc ''clients'' = None \<Longrightarrow>
   save_data (JObj doc) = Inr (Document (JObj [(''clients'', JList [])]))"
  by (simp add: save_data_def empty_document_def)

lemma save_data_clients_list:
  "save_data (JObj [(''clients'', JList cs)]) = Inr (Document (JObj [(''clients'', JList cs)]))"
  by (simp add: save_data_def)

text \<open>
  C1 (fails on the code). Loading is meant to give a document with an empty client
  sequence, and never to fail, also when the file holds corrupt content. A file holding
  the JSON number 42 makes \<^verbatim>\<open>load_data\<close> raise \<^verbatim>\<open>TypeError\<close>; a file holding the JSON string
  \<^verbatim>\<open>"clients"\<close> is returned as that string, which is no dictionary; a file whose \<^verbatim>\<open>clients\<close>
  field is the number 5 is returned as it is.
\<close>

theorem load_data_corrupt_content:
  "load_data (Document (JInt 42)) = Inl TypeError
   \<and> load_data (Document (JStr ''clients'')) = Inr (JStr ''clients'')
   \<and> load_data (Document (JObj [(''clients'', JInt 5)])) = Inr (JObj [(''clients'', JInt 5)])"
  by simp

text \<open>
  C9 (fails on the code). Saving is meant to write an empty-client document whenever the
  value passed has no \<^verbatim>\<open>clients\<close> field holding a sequence. \<^verbatim>\<open>save_data\<close> tests only
  \<^verbatim>\<open>"clients" not in data\<close>: a dictionary whose \<^verbatim>\<open>clients\<close> field is the number 5, the bare
  string \<^verbatim>\<open>"clients"\<close> and the list \<^verbatim>\<open>["clients"]\<close> are each written as they are.
\<close>

theorem save_data_keeps_broken_structure:
  "save_data (JObj [(''clients'', JInt 5)]) = Inr (Document (JObj [(''clients'', JInt 5)]))
   \<and> save_data (JStr ''clients'') = Inr (Document (JStr ''clients''))
   \<and> save_data (JList [JStr ''clients'']) = Inr (Document (JList [JStr ''clients'']))"
  by (simp add: save_data_def)

section \<open>Healing at load time\<close>

text \<open>
  C2. Take a stored document whose \<^verbatim>\<open>clients\<close> field is a list of client records, and
  the record \<open>d\<close> at position \<open>i\<close>. Loading returns, and the client at position \<open>i\<close>
  then has every field that \<open>d\<close> lacked set to its default: \<^verbatim>\<open>date_added\<close> to the date of
  the run, \<^verbatim>\<open>value\<close> to 0, \<^verbatim>\<open>source\<close> to \<^verbatim>\<open>Direct\<close>, \<^verbatim>\<open>id\<close> to the first eight characters
  of a new UUID, \<^verbatim>\<open>follow_up_date\<close> to the empty string and \<^verbatim>\<open>tags\<close> to the empty list; all
  six fields are present. \<open>load_clients\<close> is the first thing a run does, so this holds
  before any handler sees the clients.
\<close>

theorem load_heals_missing_fields:
  assumes "map_of doc ''clients'' = Some (JList raw)"
    and "list_all is_dict raw"
    and "\<forall>j. length (uuid4 j) = 36"
    and "i < length raw" and "raw ! i = JObj d"
  shows "\<exists>cs d'. load_clients today uuid4 (Document (JObj doc)) = Inr cs \<and> length cs = length raw \<and>
        cs ! i = JObj d' \<and>
        (map_of d ''date_added'' = None \<longrightarrow> map_of d' ''date_added'' = Some (JStr (today i))) \<and>
        (map_of d ''value'' = None \<longrightarrow> map_of d' ''value'' = Some (JInt 0)) \<and>
        (map_of d ''source'' = None \<longrightarrow> map_of d' ''source'' = Some (JStr ''Direct'')) \<and>
        (map_of d ''id'' = None \<longrightarrow>
           map_of d' ''id'' = Some (JStr (take 8 (uuid4 i))) \<and> length (take 8 (uuid4 i)) = 8) \<and>
        (map_of d ''follow_up_date'' = None \<longrightarrow> map_of d' ''follow_up_date'' = Some (JStr [])) \<and>
        (map_of d ''tags'' = None \<longrightarrow> map_of d' ''tags'' = Some (JList [])) \<and>
        (\<forall>k \<in> {''date_added'', ''value'', ''source'', ''id'', ''follow_up_date'', ''tags''}.
           map_of d' k \<noteq> None)"
proof -
  from load_clients_dicts [OF assms(1,2), of today uuid4] obtain cs where
    h: "load_clients today uuid4 (Document (JObj doc)) = Inr cs" "length cs = length raw"
       "\<forall>i<length raw. \<exists>d. raw ! i = JObj d \<and> cs ! i = JObj (heal_dict (today i) (uuid4 i) d)"
    by blast
  let ?d' = "heal_dict (today i) (uuid4 i) d"
  from h(3) assms(4,5) have at_i: "cs ! i = JObj ?d'" by auto
  have len: "length (take 8 (uuid4 i)) = 8"
    using assms(3) by simp
  have "map_of ?d' ''date_added'' \<noteq> None" by (simp add: heal_dict_date_added split: option.splits)
  moreover have "map_of ?d' ''value'' \<noteq> None" by (simp add: heal_dict_value split: option.splits)
  moreover have "map_of ?d' ''source'' \<noteq> None" by (simp add: heal_dict_source split: option.splits)
  moreover have "map_of ?d' ''id'' \<noteq> None" by (simp add: heal_dict_id split: option.splits)
  moreover have "map_of ?d' ''follow_up_date'' \<noteq> None" by (simp add: heal_dict_follow_up_date split: option.splits)
  moreover have "map_of ?d' ''tags'' \<noteq> None" by (simp add: heal_dict_tags split: option.splits)
  ultimately have all: "\<forall>k \<in> {''date_added'', ''value'', ''source'', ''id'', ''follow_up_date'', ''tags''}.
         map_of ?d' k \<noteq> None" by blast
  have "map_of d ''date_added'' = None \<longrightarrow> map_of ?d' ''date_added'' = Some (JStr (today i))"
    by (simp add: heal_dict_date_added)
  moreover have "map_of d ''value'' = None \<longrightarrow> map_of ?d' ''value'' = Some (JInt 0)"
    by (simp add: heal_dict_value)
  moreover have "map_of d ''source'' = None \<longrightarrow> map_of ?d' ''source'' = Some (JStr ''Direct'')"
    by (simp add: heal_dict_source)
  moreover have "map_of d ''id'' = None \<longrightarrow>
         map_of ?d' ''id'' = Some (JStr (take 8 (uuid4 i))) \<and> length (take 8 (uuid4 i)) = 8"
    using len by (simp add: heal_dict_id)
  moreover have "map_of d ''follow_up_date'' = None \<longrightarrow> map_of ?d' ''follow_up_date'' = Some (JStr [])"
    by (simp add: heal_dict_follow_up_date)
  moreover have "map_of d ''tags'' = None \<longrightarrow> map_of ?d' ''tags'' = Some (JList [])"
    by (simp add: heal_dict_tags)
  ultimately show ?thesis using h(1,2) at_i all
    apply -
    apply (rule exI [of _ cs])
    apply (rule exI [of _ "heal_dict (today i) (uuid4 i) d"])
    apply (intro conjI)
    apply assumption+
    done
qed

theorem load_heals_missing_fields_witness:
  "\<exists>cs d'. load_clients (\<lambda>i. ''2024-01-05'') (\<lambda>i. ''123e4567-e89b-42d3-a456-426614174000'')
          (Document (JObj [(''clients'', JList [JObj [(''name'', JStr ''Ana'')]])])) = Inr cs
     \<and> length cs = 1
     \<and> cs ! 0 = JObj d'
     \<and> map_of d' ''date_added'' = Some (JStr ''2024-01-05'')
     \<and> map_of d' ''value'' = Some (JInt 0)
     \<and> map_of d' ''source'' = Some (JStr ''Direct'')
     \<and> map_of d' ''id'' = Some (JStr ''123e4567'')
     \<and> map_of d' ''follow_up_date'' = Some (JStr [])
     \<and> map_of d' ''tags'' = Some (JList [])"
proof -
  let ?d = "[(''name'', JStr ''Ana'')]"
  let ?uuid4 = "\<lambda>i::nat. ''123e4567-e89b-42d3-a456-426614174000''"
  have h1: "map_of [(''clients'', JList [JObj ?d])] ''clients'' = Some (JList [JObj ?d])" by simp
  have h2: "list_all is_dict [JObj ?d]" by simp
  have h3: "\<forall>j. length (?uuid4 j) = 36" by simp
  have h4: "0 < length [JObj ?d]" by simp
  have h5: "[JObj ?d] ! 0 = JObj ?d" by simp
  show ?thesis
    using load_heals_missing_fields [OF h1 h2 h3 h4 h5, of "\<lambda>i. ''2024-01-05''"]
    by simp (elim exE conjE, (intro exI conjI; assumption))
qed

text \<open>
  C10. A stored \<^verbatim>\<open>id\<close> that is present but falsy (the empty string, for one) is
  replaced like a missing one by the first eight characters of a new UUID; after
  loading, the \<^verbatim>\<open>id\<close> of every client is truthy, so it is not the empty string.
\<close>

theorem load_replaces_unusable_id:
  assumes "map_of doc ''clients'' = Some (JList raw)"
    and "list_all is_dict raw"
    and "\<forall>j. length (uuid4 j) = 36"
    and "i < length raw" and "raw ! i = JObj d"
  shows "\<exists>cs d' v. load_clients today uuid4 (Document (JObj doc)) = Inr cs \<and> length cs = length raw \<and>
        cs ! i = JObj d' \<and> map_of d' ''id'' = Some v \<and> truthy v \<and> v \<noteq> JStr [] \<and>
        (map_of d ''id'' = None \<or> (\<exists>w. map_of d ''id'' = Some w \<and> \<not> truthy w) \<longrightarrow>
           v = JStr (take 8 (uuid4 i)) \<and> length (take 8 (uuid4 i)) = 8)"
proof -
  from load_clients_dicts [OF assms(1,2), of today uuid4] obtain cs where
    h: "load_clients today uuid4 (Document (JObj doc)) = Inr cs" "length cs = length raw"
       "\<forall>i<length raw. \<exists>d. raw ! i = JObj d \<and> cs ! i = JObj (heal_dict (today i) (uuid4 i) d)"
    by blast
  let ?d' = "heal_dict (today i) (uuid4 i) d"
  let ?new = "JStr (take 8 (uuid4 i))"
  from h(3) assms(4,5) have at_i: "cs ! i = JObj ?d'" by auto
  have len: "length (take 8 (uuid4 i)) = 8"
    using assms(3) by simp
  then have new: "truthy ?new" by auto
  obtain v where v: "map_of ?d' ''id'' = Some v"
    by (cases "map_of ?d' ''id''") (simp_all add: heal_dict_id split: option.splits if_splits)
  have tv: "truthy v"
    using v new by (auto simp: heal_dict_id split: option.splits if_splits)
  then have ne: "v \<noteq> JStr []" by auto
  have minted: "map_of d ''id'' = None \<or> (\<exists>w. map_of d ''id'' = Some w \<and> \<not> truthy w) \<longrightarrow>
         v = ?new \<and> length (take 8 (uuid4 i)) = 8"
    using v len by (auto simp: heal_dict_id)
  show ?thesis using h(1,2) at_i v tv ne minted
    apply -
    apply (rule exI [of _ cs])
    apply (rule exI [of _ "heal_dict (today i) (uuid4 i) d"])
    apply (rule exI [of _ v])
    apply (intro conjI)
    apply assumption+
    done
qed

theorem load_replaces_unusable_id_witness:
  "\<exists>cs d'. load_clients (\<lambda>i. ''2024-01-05'') (\<lambda>i. ''123e4567-e89b-42d3-a456-426614174000'')
          (Document (JObj [(''clients'', JList [JObj [(''name'', JStr ''Ana''), (''id'', JStr [])]])])) = Inr cs
     \<and> length cs = 1
     \<and> cs ! 0 = JObj d' \<and> map_of d' ''id'' = Some (JStr ''123e4567'')"
proof -
  let ?d = "[(''name'', JStr ''Ana''), (''id'', JStr [])]"
  let ?uuid4 = "\<lambda>i::nat. ''123e4567-e89b-42d3-a456-426614174000''"
  have h1: "map_of [(''clients'', JList [JObj ?d])] ''clients'' = Some (JList [JObj ?d])" by simp
  have h2: "list_all is_dict [JObj ?d]" by simp
  have h3: "\<forall>j. length (?uuid4 j) = 36" by simp
  have h4: "0 < length [JObj ?d]" by simp
  have h5: "[JObj ?d] ! 0 = JObj ?d" by simp
  show ?thesis
    using load_replaces_unusable_id [OF h1 h2 h3 h4 h5, of "\<lambda>i. ''2024-01-05''"]
    by auto
qed

section \<open>Task list: sorting by priority\<close>

lemma map_result_total:
  "\<forall>x \<in> set xs. f x = Inr (g x) \<Longrightarrow> map_result f xs = Inr (map g xs)"
  by (induction xs) simp_all

lemma map_result_Inr:
  "map_result f xs = Inr ys \<Longrightarrow> length ys = length xs \<and> (\<forall>i<length xs. f (xs ! i) = Inr (ys ! i))"
proof (induction xs arbitrary: ys)
  case Nil
  then show ?case by simp
next
  case (Cons x xs)
  from Cons.prems obtain y where y: "f x = Inr y"
    by (cases "f x") simp_all
  with Cons.prems obtain ys' where ys': "map_result f xs = Inr ys'"
    by (cases "map_result f xs") simp_all
  with y Cons.prems have ys: "ys = y # ys'" by simp
  from Cons.IH [OF ys'] have ih: "length ys' = length xs" "\<forall>i<length xs. f (xs ! i) = Inr (ys' ! i)"
    by simp_all
  have "f ((x # xs) ! i) = Inr (ys ! i)" if "i < length (x # xs)" for i
    using that y ys ih(2) by (cases i) simp_all
  then show ?case using ys ih(1) by simp
qed

lemma insort_key_decorated:
  "insort_key fst (g x, x) (map (\<lambda>x. (g x, x)) ys) = map (\<lambda>x. (g x, x)) (insort_key g x ys)"
  by (induction ys) simp_all

lemma sort_key_decorated:
  "sort_key fst (map (\<lambda>x. (g x, x)) xs) = map (\<lambda>x. (g x, x)) (sort_key g xs)"
  by (induction xs) (simp_all add: insort_key_decorated)

lemma zip_decorate: "zip (map g xs) xs = map (\<lambda>x. (g x, x)) xs"
  by (induction xs) simp_all

lemma py_sorted_total:
  assumes "\<forall>x \<in> set xs. f x = Inr (g x)"
  shows "py_sorted f xs = Inr (sort_key g xs)"
proof -
  have "map snd (sort_key fst (zip (map g xs) xs)) = sort_key g xs"
    by (simp add: zip_decorate sort_key_decorated comp_def)
  then show ?thesis
    using map_result_total [OF assms] by (simp add: py_sorted_def)
qed

lemma priority_order_get_hashable:
  "hashable p \<Longrightarrow> \<exists>k. priority_order_get p = Inr k"
  by (cases p) simp_all

lemma sort_by_priority_hashable:
  assumes "list_all (\<lambda>x. hashable (priority x)) rows"
  shows "sort_by_priority rows = Inr (sort_key priority_rank rows)"
proof -
  have "\<forall>x \<in> set rows. priority_order_get (priority x) = Inr (priority_rank x)"
  proof
    fix x assume "x \<in> set rows"
    with assms have "hashable (priority x)" by (simp add: list_all_iff)
    then obtain k where "priority_order_get (priority x) = Inr k"
      using priority_order_get_hashable by blast
    then show "priority_order_get (priority x) = Inr (priority_rank x)"
      by (simp add: priority_rank_def)
  qed
  then show ?thesis
    unfolding sort_by_priority_def by (rule py_sorted_total)
qed

lemma priority_rank_values:
  "priority x = JStr ''High'' \<Longrightarrow> priority_rank x = 0"
  "priority x = JStr ''Medium'' \<Longrightarrow> priority_rank x = 1"
  "priority x = JStr ''Low'' \<Longrightarrow> priority_rank x = 2"
  by (simp_all add: priority_rank_def)

lemma filter_by_priority_stable:
  "filter (\<lambda>x. priority x = p) (sort_key priority_rank rows) = filter (\<lambda>x. priority x = p) rows"
proof -
  let ?k = "case priority_order_get p of Inl e \<Rightarrow> 1 | Inr k \<Rightarrow> k"
  have eq: "(\<lambda>x. priority x = p) = (\<lambda>x. priority x = p \<and> priority_rank x = ?k)"
    by (auto simp: priority_rank_def)
  have "filter (\<lambda>x. priority x = p) (sort_key priority_rank rows)
      = filter (\<lambda>x. priority x = p) (filter (\<lambda>x. priority_rank x = ?k) (sort_key priority_rank rows))"
    by (subst eq) (simp add: conj_commute)
  also have "\<dots> = filter (\<lambda>x. priority x = p) (filter (\<lambda>x. priority_rank x = ?k) rows)"
    by (simp only: sort_key_stable)
  also have "\<dots> = filter (\<lambda>x. priority x = p) rows"
    by (subst (2) eq) (simp add: conj_commute)
  finally show ?thesis .
qed

lemma sorted_ranks_order:
  assumes "sorted (map priority_rank out)" and "i < j" and "j < length out"
  shows "priority_rank (out ! i) \<le> priority_rank (out ! j)"
  using assms by (simp add: sorted_iff_nth_mono)

text \<open>
  C5. Sorting the task list by priority returns (the priorities being values that can be
  looked up in \<^verbatim>\<open>priority_order\<close>) a rearrangement of the list in which no Medium entry
  stands before a High one and no Low entry before a High or Medium one, and in which the
  entries of any one priority stand in the order they had before.
\<close>

theorem sort_by_priority_stable:
  assumes "list_all (\<lambda>x. hashable (priority x)) rows"
  shows "\<exists>out. sort_by_priority rows = Inr out \<and> mset out = mset rows \<and>
     sorted (map priority_rank out) \<and>
     (\<forall>i j. i < j \<and> j < length out \<longrightarrow>
        \<not> (priority (out ! i) = JStr ''Medium'' \<and> priority (out ! j) = JStr ''High'') \<and>
        \<not> (priority (out ! i) = JStr ''Low'' \<and> priority (out ! j) = JStr ''High'') \<and>
        \<not> (priority (out ! i) = JStr ''Low'' \<and> priority (out ! j) = JStr ''Medium'')) \<and>
     (\<forall>p. filter (\<lambda>x. priority x = p) out = filter (\<lambda>x. priority x = p) rows)"
proof -
  let ?out = "sort_key priority_rank rows"
  have run: "sort_by_priority rows = Inr ?out"
    using assms by (rule sort_by_priority_hashable)
  have perm: "mset ?out = mset rows" by simp
  have srt: "sorted (map priority_rank ?out)" by (rule sorted_sort_key)
  have order: "\<not> (priority (?out ! i) = JStr ''Medium'' \<and> priority (?out ! j) = JStr ''High'') \<and>
        \<not> (priority (?out ! i) = JStr ''Low'' \<and> priority (?out ! j) = JStr ''High'') \<and>
        \<not> (priority (?out ! i) = JStr ''Low'' \<and> priority (?out ! j) = JStr ''Medium'')"
    if "i < j \<and> j < length ?out" for i j
  proof -
    from that have "priority_rank (?out ! i) \<le> priority_rank (?out ! j)"
      using sorted_ranks_order [OF srt] by blast
    then show ?thesis
      by (auto simp: priority_rank_values)
  qed
  have stable: "\<forall>p. filter (\<lambda>x. priority x = p) ?out = filter (\<lambda>x. priority x = p) rows"
    by (simp add: filter_by_priority_stable)
  show ?thesis
    using run perm srt order stable by blast
qed


theorem sort_by_priority_stable_witness:
  "\<exists>out. sort_by_priority
     [\<lparr>client_id = JStr ''c1'', client_name = JStr ''Ana'', task = JStr ''Send quote'', completed = JBool False, due_date = JStr ''2024-01-05'', priority = JStr ''Low''\<rparr>,
      \<lparr>client_id = JStr ''c1'', client_name = JStr ''Ana'', task = JStr ''Call back'', completed = JBool False, due_date = JStr ''2024-01-05'', priority = JStr ''High''\<rparr>,
      \<lparr>client_id = JStr ''c1'', client_name = JStr ''Ana'', task = JStr ''Write report'', completed = JBool False, due_date = JStr ''2024-01-05'', priority = JStr ''Medium''\<rparr>,
      \<lparr>client_id = JStr ''c1'', client_name = JStr ''Ana'', task = JStr ''Book room'', completed = JBool False, due_date = JStr ''2024-01-05'', priority = JStr ''High''\<rparr>] = Inr out
   \<and> out =
     [\<lparr>client_id = JStr ''c1'', client_name = JStr ''Ana'', task = JStr ''Call back'', completed = JBool False, due_date = JStr ''2024-01-05'', priority = JStr ''High''\<rparr>,
      \<lparr>client_id = JStr ''c1'', client_name = JStr ''Ana'', task = JStr ''Book room'', completed = JBool False, due_date = JStr ''2024-01-05'', priority = JStr ''High''\<rparr>,
      \<lparr>client_id = JStr ''c1'', client_name = JStr ''Ana'', task = JStr ''Write report'', completed = JBool False, due_date = JStr ''2024-01-05'', priority = JStr ''Medium''\<rparr>,
      \<lparr>client_id = JStr ''c1'', client_name = JStr ''Ana'', task = JStr ''Send quote'', completed = JBool False, due_date = JStr ''2024-01-05'', priority = JStr ''Low''\<rparr>]
   \<and> sorted (map priority_rank out)
   \<and> filter (\<lambda>x. priority x = JStr ''High'') out =
     [\<lparr>client_id = JStr ''c1'', client_name = JStr ''Ana'', task = JStr ''Call back'', completed = JBool False, due_date = JStr ''2024-01-05'', priority = JStr ''High''\<rparr>,
      \<lparr>client_id = JStr ''c1'', client_name = JStr ''Ana'', task = JStr ''Book room'', completed = JBool False, due_date = JStr ''2024-01-05'', priority = JStr ''High''\<rparr>]"
proof -
  let ?rows = "[\<lparr>client_id = JStr ''c1'', client_name = JStr ''Ana'', task = JStr ''Send quote'', completed = JBool False, due_date = JStr ''2024-01-05'', priority = JStr ''Low''\<rparr>,
      \<lparr>client_id = JStr ''c1'', client_name = JStr ''Ana'', task = JStr ''Call back'', completed = JBool False, due_date = JStr ''2024-01-05'', priority = JStr ''High''\<rparr>,
      \<lparr>client_id = JStr ''c1'', client_name = JStr ''Ana'', task = JStr ''Write report'', completed = JBool False, due_date = JStr ''2024-01-05'', priority = JStr ''Medium''\<rparr>,
      \<lparr>client_id = JStr ''c1'', client_name = JStr ''Ana'', task = JStr ''Book room'', completed = JBool False, due_date = JStr ''2024-01-05'', priority = JStr ''High''\<rparr>]"
  have h: "list_all (\<lambda>x. hashable (priority x)) ?rows" by simp
  have run: "sort_by_priority ?rows = Inr
     [\<lparr>client_id = JStr ''c1'', client_name = JStr ''Ana'', task = JStr ''Call back'', completed = JBool False, due_date = JStr ''2024-01-05'', priority = JStr ''High''\<rparr>,
      \<lparr>client_id = JStr ''c1'', client_name = JStr ''Ana'', task = JStr ''Book room'', completed = JBool False, due_date = JStr ''2024-01-05'', priority = JStr ''High''\<rparr>,
      \<lparr>client_id = JStr ''c1'', client_name = JStr ''Ana'', task = JStr ''Write report'', completed = JBool False, due_date = JStr ''2024-01-05'', priority = JStr ''Medium''\<rparr>,
      \<lparr>client_id = JStr ''c1'', client_name = JStr ''Ana'', task = JStr ''Send quote'', completed = JBool False, due_date = JStr ''2024-01-05'', priority = JStr ''Low''\<rparr>]"
    by (simp add: sort_by_priority_def py_sorted_def)
  from sort_by_priority_stable [OF h] obtain out where
    out: "sort_by_priority ?rows = Inr out" "sorted (map priority_rank out)"
      "\<forall>p. filter (\<lambda>x. priority x = p) out = filter (\<lambda>x. priority x = p) ?rows"
    by blast
  from out(3) have "filter (\<lambda>x. priority x = JStr ''High'') out =
     filter (\<lambda>x. priority x = JStr ''High'') ?rows" by blast
  then have high: "filter (\<lambda>x. priority x = JStr ''High'') out =
     [\<lparr>client_id = JStr ''c1'', client_name = JStr ''Ana'', task = JStr ''Call back'', completed = JBool False, due_date = JStr ''2024-01-05'', priority = JStr ''High''\<rparr>,
      \<lparr>client_id = JStr ''c1'', client_name = JStr ''Ana'', task = JStr ''Book room'', completed = JBool False, due_date = JStr ''2024-01-05'', priority = JStr ''High''\<rparr>]" by simp
  from out(1) run have "out =
     [\<lparr>client_id = JStr ''c1'', client_name = JStr ''Ana'', task = JStr ''Call back'', completed = JBool False, due_date = JStr ''2024-01-05'', priority = JStr ''High''\<rparr>,
      \<lparr>client_id = JStr ''c1'', client_name = JStr ''Ana'', task = JStr ''Book room'', completed = JBool False, due_date = JStr ''2024-01-05'', priority = JStr ''High''\<rparr>,
      \<lparr>client_id = JStr ''c1'', client_name = JStr ''Ana'', task = JStr ''Write report'', completed = JBool False, due_date = JStr ''2024-01-05'', priority = JStr ''Medium''\<rparr>,
      \<lparr>client_id = JStr ''c1'', client_name = JStr ''Ana'', task = JStr ''Send quote'', completed = JBool False, due_date = JStr ''2024-01-05'', priority = JStr ''Low''\<rparr>]" by simp
  with out(1,2) high show ?thesis by blast
qed

section \<open>Client repository: update and delete\<close>

text \<open>Compared with a string, only that string is equal.\<close>

lemma py_eq_JStr [simp]: "py_eq v (JStr s) = (v = JStr s)"
  by (cases v) auto

lemma py_eq_JStr_left [simp]: "py_eq (JStr s) v = (v = JStr s)"
  by (cases v) auto

lemma find_client_Some:
  "find_client cs wanted = Inr (Some i) \<Longrightarrow>
   i < length cs \<and> (\<exists>d v. cs ! i = JObj d \<and> map_of d ''id'' = Some v \<and> py_eq v wanted)"
proof (induction cs arbitrary: i)
  case Nil
  then show ?case by simp
next
  case (Cons c cs)
  from Cons.prems obtain v where v: "getitem c ''id'' = Inr v"
    by (cases "getitem c ''id''") simp_all
  then obtain d where d: "c = JObj d" "map_of d ''id'' = Some v"
    by (cases c) (auto split: option.splits)
  show ?case
  proof (cases "py_eq v wanted")
    case True
    with Cons.prems v have "i = 0" by simp
    with d True show ?thesis by simp
  next
    case False
    with Cons.prems v obtain r where r: "find_client cs wanted = Inr r" "map_option Suc r = Some i"
      by (cases "find_client cs wanted") auto
    then obtain j where j: "r = Some j" "i = Suc j" by (cases r) auto
    from Cons.IH [of j] r(1) j(1) have "j < length cs \<and>
        (\<exists>d v. cs ! j = JObj d \<and> map_of d ''id'' = Some v \<and> py_eq v wanted)" by simp
    with j(2) show ?thesis by simp
  qed
qed

text \<open>
  Which client an id selects: the first one that has it, and so, when the ids of the
  clients are distinct, the one that has it. After the healing loop every client has an
  id.
\<close>

lemma find_client_first:
  "list_all (\<lambda>c. \<not> isl (getitem c ''id'')) cs \<Longrightarrow> i < length cs \<Longrightarrow>
   getitem (cs ! i) ''id'' = Inr (JStr s) \<Longrightarrow>
   \<forall>j<i. getitem (cs ! j) ''id'' \<noteq> Inr (JStr s) \<Longrightarrow>
   find_client cs (JStr s) = Inr (Some i)"
proof (induction cs arbitrary: i)
  case Nil
  then show ?case by simp
next
  case (Cons c cs)
  show ?case
  proof (cases i)
    case 0
    with Cons.prems show ?thesis by simp
  next
    case (Suc k)
    from Cons.prems(1) obtain v where v: "getitem c ''id'' = Inr v"
      by (cases "getitem c ''id''") simp_all
    from Cons.prems(4) Suc have "getitem ((c # cs) ! 0) ''id'' \<noteq> Inr (JStr s)" by blast
    with v have ne: "v \<noteq> JStr s" by simp
    have "\<forall>j<k. getitem (cs ! j) ''id'' \<noteq> Inr (JStr s)"
    proof (intro allI impI)
      fix j assume "j < k"
      then have "Suc j < i" using Suc by simp
      with Cons.prems(4) have "getitem ((c # cs) ! Suc j) ''id'' \<noteq> Inr (JStr s)" by blast
      then show "getitem (cs ! j) ''id'' \<noteq> Inr (JStr s)" by simp
    qed
    with Cons.prems Suc have "find_client cs (JStr s) = Inr (Some k)"
      using Cons.IH [of k] by simp
    with v ne Suc show ?thesis by simp
  qed
qed

lemma find_client_distinct:
  assumes "list_all (\<lambda>c. \<not> isl (getitem c ''id'')) cs" and "i < length cs"
    and "getitem (cs ! i) ''id'' = Inr (JStr s)"
    and "distinct (map (\<lambda>c. getitem c ''id'') cs)"
  shows "find_client cs (JStr s) = Inr (Some i)"
proof -
  have "\<forall>j<i. getitem (cs ! j) ''id'' \<noteq> Inr (JStr s)"
  proof (intro allI impI)
    fix j assume j: "j < i"
    with assms(2) have "j < length cs" "j \<noteq> i" by simp_all
    let ?ids = "map (\<lambda>c. getitem c ''id'') cs"
    have "j < length ?ids" "i < length ?ids" using \<open>j < length cs\<close> assms(2) by simp_all
    with assms(4) \<open>j \<noteq> i\<close> have "?ids ! j \<noteq> ?ids ! i"
      using nth_eq_iff_index_eq [of ?ids j i] by blast
    with assms(2,3) \<open>j < length cs\<close> show "getitem (cs ! j) ''id'' \<noteq> Inr (JStr s)" by simp
  qed
  with assms(1,2,3) show ?thesis by (rule find_client_first)
qed

lemma healed_clients_have_ids:
  assumes "list_all is_dict cs" and "heal_clients today uuid4 n cs = Inr cs'"
  shows "list_all (\<lambda>c. \<not> isl (getitem c ''id'')) cs'"
proof -
  from heal_clients_dicts [OF assms(1), of today uuid4 n] assms(2) have
    len: "length cs' = length cs" and
    each: "\<forall>i<length cs. \<exists>d. cs ! i = JObj d \<and>
        cs' ! i = JObj (heal_dict (today (n + i)) (uuid4 (n + i)) d)" by auto
  have "\<not> isl (getitem (cs' ! i) ''id'')" if "i < length cs'" for i
  proof -
    from that len each obtain d where "cs' ! i = JObj (heal_dict (today (n + i)) (uuid4 (n + i)) d)"
      by auto
    then show ?thesis by (simp add: heal_dict_id split: option.splits)
  qed
  then show ?thesis by (simp add: list_all_length)
qed

lemma truthy_dict_with_key: "map_of d k = Some v \<Longrightarrow> truthy (JObj d)"
  by (cases d) simp_all

lemma apply_form_fields:
  "map_of (apply_form f d) ''name'' = Some (JStr (new_name f))"
  "map_of (apply_form f d) ''phone'' = Some (JStr (new_phone f))"
  "map_of (apply_form f d) ''email'' = Some (JStr (new_email f))"
  "map_of (apply_form f d) ''status'' = Some (JStr (new_status f))"
  "map_of (apply_form f d) ''value'' = Some (JInt (new_value f))"
  "map_of (apply_form f d) ''source'' = Some (JStr (new_source f))"
  "map_of (apply_form f d) ''tags'' = Some (JList (map JStr (new_tags f)))"
  "map_of (apply_form f d) ''follow_up_date'' = Some (JStr (new_follow_up f))"
  by (simp_all add: apply_form_def Let_def update_conv')

lemma apply_form_other:
  "k \<notin> {''name'', ''phone'', ''email'', ''status'', ''value'', ''source'', ''tags'', ''follow_up_date''}
   \<Longrightarrow> map_of (apply_form f d) k = map_of d k"
  by (simp add: apply_form_def Let_def update_conv')

lemma update_client_found:
  assumes "find_client (clients st) (JStr selected_id) = Inr (Some i)"
    and "clients st ! i = JObj d"
  shows "update_client st selected_id f =
     Inr \<lparr>clients = (clients st)[i := JObj (apply_form f d)],
          stored = Document (JObj [(''clients'', JList ((clients st)[i := JObj (apply_form f d)]))])\<rparr>"
proof -
  from find_client_Some [OF assms(1)] assms(2) obtain v where "map_of d ''id'' = Some v" by auto
  then have "truthy (JObj d)" by (rule truthy_dict_with_key)
  then show ?thesis
    using assms by (simp add: update_client_def Let_def save_data_clients_list)
qed

text \<open>
  C7. When \<open>selected_id\<close> selects a client, the handler of "Update Client" returns; the
  selected client then has the eight fields of the form (name, phone, email, status,
  value, source, tags, follow-up date) set to the values of the form, its \<^verbatim>\<open>id\<close> and
  \<^verbatim>\<open>date_added\<close> as before, every other client is as before, and the file holds the new
  list.
\<close>

theorem update_client_frame:
  assumes "find_client (clients st) (JStr selected_id) = Inr (Some i)"
  shows "\<exists>st' d d'. update_client st selected_id f = Inr st' \<and>
     clients st ! i = JObj d \<and> clients st' ! i = JObj d' \<and>
     map_of d' ''name'' = Some (JStr (new_name f)) \<and>
     map_of d' ''phone'' = Some (JStr (new_phone f)) \<and>
     map_of d' ''email'' = Some (JStr (new_email f)) \<and>
     map_of d' ''status'' = Some (JStr (new_status f)) \<and>
     map_of d' ''value'' = Some (JInt (new_value f)) \<and>
     map_of d' ''source'' = Some (JStr (new_source f)) \<and>
     map_of d' ''tags'' = Some (JList (map JStr (new_tags f))) \<and>
     map_of d' ''follow_up_date'' = Some (JStr (new_follow_up f)) \<and>
     map_of d' ''id'' = map_of d ''id'' \<and>
     map_of d' ''date_added'' = map_of d ''date_added'' \<and>
     length (clients st') = length (clients st) \<and>
     (\<forall>j. j \<noteq> i \<longrightarrow> clients st' ! j = clients st ! j) \<and>
     stored st' = Document (JObj [(''clients'', JList (clients st'))])"
proof -
  from find_client_Some [OF assms] obtain d where
    i: "i < length (clients st)" and d: "clients st ! i = JObj d" by blast
  let ?d' = "apply_form f d"
  let ?cs' = "(clients st)[i := JObj ?d']"
  let ?st' = "\<lparr>clients = ?cs', stored = Document (JObj [(''clients'', JList ?cs')])\<rparr>"
  have run: "update_client st selected_id f = Inr ?st'"
    using assms d by (rule update_client_found)
  have at_i: "clients ?st' ! i = JObj ?d'" using i by simp
  have id: "map_of ?d' ''id'' = map_of d ''id''" by (simp add: apply_form_other)
  have da: "map_of ?d' ''date_added'' = map_of d ''date_added''" by (simp add: apply_form_other)
  have len: "length (clients ?st') = length (clients st)" by simp
  have others: "\<forall>j. j \<noteq> i \<longrightarrow> clients ?st' ! j = clients st ! j" by simp
  have written: "stored ?st' = Document (JObj [(''clients'', JList (clients ?st'))])" by simp
  show ?thesis
    using run d at_i apply_form_fields [of f d] id da len others written
    apply -
    apply (rule exI [of _ ?st'])
    apply (rule exI [of _ d])
    apply (rule exI [of _ ?d'])
    apply (intro conjI)
    apply assumption+
    done
qed


theorem update_client_frame_witness:
  "\<exists>st' d'. update_client
       \<lparr>clients = [JObj [(''id'', JStr ''c1''), (''name'', JStr ''Ana''), (''date_added'', JStr ''2024-01-01'')],
                   JObj [(''id'', JStr ''c2''), (''name'', JStr ''Bob''), (''date_added'', JStr ''2024-01-02'')]],
        stored = Missing\<rparr>
       ''c2''
       \<lparr>new_name = ''Robert'', new_phone = ''555-2222'', new_email = ''rob@x.com'', new_status = ''Active'',
        new_value = 300, new_source = ''Referral'', new_tags = [''VIP''], new_follow_up = ''2024-02-01''\<rparr>
     = Inr st'
   \<and> clients st' ! 0 = JObj [(''id'', JStr ''c1''), (''name'', JStr ''Ana''), (''date_added'', JStr ''2024-01-01'')]
   \<and> clients st' ! 1 = JObj d'
   \<and> map_of d' ''name'' = Some (JStr ''Robert'')
   \<and> map_of d' ''value'' = Some (JInt 300)
   \<and> map_of d' ''id'' = Some (JStr ''c2'')
   \<and> map_of d' ''date_added'' = Some (JStr ''2024-01-02'')"
proof -
  let ?st = "\<lparr>clients = [JObj [(''id'', JStr ''c1''), (''name'', JStr ''Ana''), (''date_added'', JStr ''2024-01-01'')],
                   JObj [(''id'', JStr ''c2''), (''name'', JStr ''Bob''), (''date_added'', JStr ''2024-01-02'')]],
        stored = Missing\<rparr>"
  have h: "find_client (clients ?st) (JStr ''c2'') = Inr (Some 1)" by simp
  show ?thesis
    using update_client_frame [OF h,
      of "\<lparr>new_name = ''Robert'', new_phone = ''555-2222'', new_email = ''rob@x.com'', new_status = ''Active'',
        new_value = 300, new_source = ''Referral'', new_tags = [''VIP''], new_follow_up = ''2024-02-01''\<rparr>"]
    by simp (elim exE conjE, (intro exI conjI; simp))
qed

lemma remove_by_id_filter:
  "list_all (\<lambda>c. \<not> isl (getitem c ''id'')) cs \<Longrightarrow>
   remove_by_id cs (JStr s) = Inr (filter (\<lambda>c. getitem c ''id'' \<noteq> Inr (JStr s)) cs)"
proof (induction cs)
  case Nil
  then show ?case by simp
next
  case (Cons c cs)
  from Cons.prems obtain v where v: "getitem c ''id'' = Inr v"
    by (cases "getitem c ''id''") simp_all
  from Cons.prems have "list_all (\<lambda>c. \<not> isl (getitem c ''id'')) cs" by simp
  from Cons.IH [OF this] v show ?case by simp
qed

lemma filter_out_the_one:
  "distinct (map g cs) \<Longrightarrow> i < length cs \<Longrightarrow> g (cs ! i) = a \<Longrightarrow>
   filter (\<lambda>c. g c \<noteq> a) cs = take i cs @ drop (Suc i) cs"
proof (induction cs arbitrary: i)
  case Nil
  then show ?case by simp
next
  case (Cons c cs)
  show ?case
  proof (cases i)
    case 0
    with Cons.prems have a: "g c = a" and "a \<notin> g ` set cs" by auto
    then have "\<forall>x \<in> set cs. g x \<noteq> a" by blast
    then have "filter (\<lambda>c. g c \<noteq> a) cs = cs"
      by (simp add: filter_id_conv)
    with a 0 show ?thesis by simp
  next
    case (Suc j)
    with Cons.prems have j: "j < length cs" "g (cs ! j) = a" "distinct (map g cs)" by auto
    then have "a \<in> g ` set cs" by (metis imageI nth_mem)
    with Cons.prems have "g c \<noteq> a" by auto
    with Cons.IH [OF j(3) j(1) j(2)] Suc show ?thesis by simp
  qed
qed

text \<open>
  C3 (as amended). Let \<open>selected_id\<close> select a client and let every client have an id. If
  the text typed differs from the name of the selected client, the handler of "Delete
  Permanently" does nothing: it raises no error, and the list in memory and the file are
  as before. If the text is the name, the handler removes every client whose id is
  \<open>selected_id\<close>, each with its tasks and notes, keeps the others unchanged and in order,
  and writes the new list to the file; when the ids of the clients are distinct, exactly
  the selected client is removed.
\<close>

theorem delete_client_confirmed_by_name:
  assumes "find_client (clients st) (JStr selected_id) = Inr (Some i)"
    and "getitem (clients st ! i) ''name'' = Inr name"
    and "list_all (\<lambda>c. \<not> isl (getitem c ''id'')) (clients st)"
  shows "(name \<noteq> JStr confirm_delete \<longrightarrow>
            delete_client st selected_id confirm_delete = Inr st) \<and>
         (name = JStr confirm_delete \<longrightarrow>
            (\<exists>st'. delete_client st selected_id confirm_delete = Inr st' \<and>
               clients st' = filter (\<lambda>c. getitem c ''id'' \<noteq> Inr (JStr selected_id)) (clients st) \<and>
               stored st' = Document (JObj [(''clients'', JList (clients st'))]) \<and>
               (distinct (map (\<lambda>c. getitem c ''id'') (clients st)) \<longrightarrow>
                  clients st' = take i (clients st) @ drop (Suc i) (clients st))))"
proof -
  from find_client_Some [OF assms(1)] obtain d v where
    i: "i < length (clients st)" and d: "clients st ! i = JObj d" "map_of d ''id'' = Some v"
    and v: "v = JStr selected_id" by auto
  have t: "truthy (clients st ! i)" using d(1) truthy_dict_with_key [OF d(2)] by simp
  let ?cs' = "filter (\<lambda>c. getitem c ''id'' \<noteq> Inr (JStr selected_id)) (clients st)"
  let ?st' = "\<lparr>clients = ?cs', stored = Document (JObj [(''clients'', JList ?cs')])\<rparr>"
  have mismatch: "delete_client st selected_id confirm_delete = Inr st"
    if "name \<noteq> JStr confirm_delete"
    using that assms(1,2) t by (simp add: delete_client_def)
  have match: "delete_client st selected_id confirm_delete = Inr ?st'"
    if "name = JStr confirm_delete"
    using that assms(1,2) t remove_by_id_filter [OF assms(3), of selected_id]
    by (simp add: delete_client_def save_data_clients_list)
  have one: "?cs' = take i (clients st) @ drop (Suc i) (clients st)"
    if "distinct (map (\<lambda>c. getitem c ''id'') (clients st))"
  proof -
    have "getitem (clients st ! i) ''id'' = Inr (JStr selected_id)" using d v by simp
    from filter_out_the_one [OF that i this] show ?thesis .
  qed
  show ?thesis
  proof (intro conjI impI)
    assume "name \<noteq> JStr confirm_delete"
    then show "delete_client st selected_id confirm_delete = Inr st" by (rule mismatch)
  next
    assume "name = JStr confirm_delete"
    then have "delete_client st selected_id confirm_delete = Inr ?st'" by (rule match)
    moreover have "clients ?st' = ?cs'" by simp
    moreover have "stored ?st' = Document (JObj [(''clients'', JList (clients ?st'))])" by simp
    moreover have "distinct (map (\<lambda>c. getitem c ''id'') (clients st)) \<longrightarrow>
                  clients ?st' = take i (clients st) @ drop (Suc i) (clients st)"
      using one by simp
    ultimately show "\<exists>st'. delete_client st selected_id confirm_delete = Inr st' \<and>
               clients st' = ?cs' \<and>
               stored st' = Document (JObj [(''clients'', JList (clients st'))]) \<and>
               (distinct (map (\<lambda>c. getitem c ''id'') (clients st)) \<longrightarrow>
                  clients st' = take i (clients st) @ drop (Suc i) (clients st))"
      by (intro exI [of _ ?st'] conjI)
  qed
qed

theorem delete_client_confirmed_by_name_witness:
  "delete_client
       \<lparr>clients = [JObj [(''id'', JStr ''c1''), (''name'', JStr ''Ana''), (''notes'', JList [JObj [(''text'', JStr ''hello'')]])],
                   JObj [(''id'', JStr ''c2''), (''name'', JStr ''Bob''), (''tasks'', JList [JObj [(''task'', JStr ''Call'')]])],
                   JObj [(''id'', JStr ''c3''), (''name'', JStr ''Cy'')]],
        stored = Missing\<rparr> ''c2'' ''Bobby''
     = Inr \<lparr>clients = [JObj [(''id'', JStr ''c1''), (''name'', JStr ''Ana''), (''notes'', JList [JObj [(''text'', JStr ''hello'')]])],
                   JObj [(''id'', JStr ''c2''), (''name'', JStr ''Bob''), (''tasks'', JList [JObj [(''task'', JStr ''Call'')]])],
                   JObj [(''id'', JStr ''c3''), (''name'', JStr ''Cy'')]],
        stored = Missing\<rparr>
   \<and> (\<exists>st'. delete_client
       \<lparr>clients = [JObj [(''id'', JStr ''c1''), (''name'', JStr ''Ana''), (''notes'', JList [JObj [(''text'', JStr ''hello'')]])],
                   JObj [(''id'', JStr ''c2''), (''name'', JStr ''Bob''), (''tasks'', JList [JObj [(''task'', JStr ''Call'')]])],
                   JObj [(''id'', JStr ''c3''), (''name'', JStr ''Cy'')]],
        stored = Missing\<rparr> ''c2'' ''Bob'' = Inr st'
      \<and> clients st' = [JObj [(''id'', JStr ''c1''), (''name'', JStr ''Ana''), (''notes'', JList [JObj [(''text'', JStr ''hello'')]])],
                   JObj [(''id'', JStr ''c3''), (''name'', JStr ''Cy'')]]
      \<and> stored st' = Document (JObj [(''clients'', JList (clients st'))]))"
proof -
  let ?st = "\<lparr>clients = [JObj [(''id'', JStr ''c1''), (''name'', JStr ''Ana''), (''notes'', JList [JObj [(''text'', JStr ''hello'')]])],
                   JObj [(''id'', JStr ''c2''), (''name'', JStr ''Bob''), (''tasks'', JList [JObj [(''task'', JStr ''Call'')]])],
                   JObj [(''id'', JStr ''c3''), (''name'', JStr ''Cy'')]],
        stored = Missing\<rparr>"
  have h1: "find_client (clients ?st) (JStr ''c2'') = Inr (Some 1)" by simp
  have h2: "getitem (clients ?st ! 1) ''name'' = Inr (JStr ''Bob'')" by simp
  have h3: "list_all (\<lambda>c. \<not> isl (getitem c ''id'')) (clients ?st)" by simp
  have d: "distinct (map (\<lambda>c. getitem c ''id'') (clients ?st))" by simp
  have wrong: "JStr ''Bob'' \<noteq> JStr ''Bobby''" by simp
  from delete_client_confirmed_by_name [OF h1 h2 h3, of "''Bobby''"] wrong
  have a: "delete_client ?st ''c2'' ''Bobby'' = Inr ?st" by blast
  from delete_client_confirmed_by_name [OF h1 h2 h3, of "''Bob''"] d
  obtain st' where b: "delete_client ?st ''c2'' ''Bob'' = Inr st'"
    "stored st' = Document (JObj [(''clients'', JList (clients st'))])"
    "clients st' = take 1 (clients ?st) @ drop (Suc 1) (clients ?st)"
    by blast
  from b(3) have "clients st' = [JObj [(''id'', JStr ''c1''), (''name'', JStr ''Ana''), (''notes'', JList [JObj [(''text'', JStr ''hello'')]])],
                   JObj [(''id'', JStr ''c3''), (''name'', JStr ''Cy'')]]" by simp
  with a b(1,2) show ?thesis by blast
qed

text \<open>
  The claim as first stated fails twice. With a wrong confirmation text the handler ends
  normally in the state it started from, and signals no failure. With two stored clients
  that share the id \<^verbatim>\<open>c1\<close>, confirming with the name of the first removes both.
\<close>

theorem delete_client_counterexample:
  "delete_client
       \<lparr>clients = [JObj [(''id'', JStr ''c1''), (''name'', JStr ''Ana'')],
                   JObj [(''id'', JStr ''c2''), (''name'', JStr ''Bob'')]],
        stored = Document (JObj [(''clients'', JList
                  [JObj [(''id'', JStr ''c1''), (''name'', JStr ''Ana'')],
                   JObj [(''id'', JStr ''c2''), (''name'', JStr ''Bob'')]])])\<rparr> ''c1'' ''Anna''
     = Inr \<lparr>clients = [JObj [(''id'', JStr ''c1''), (''name'', JStr ''Ana'')],
                   JObj [(''id'', JStr ''c2''), (''name'', JStr ''Bob'')]],
        stored = Document (JObj [(''clients'', JList
                  [JObj [(''id'', JStr ''c1''), (''name'', JStr ''Ana'')],
                   JObj [(''id'', JStr ''c2''), (''name'', JStr ''Bob'')]])])\<rparr>
   \<and> delete_client
       \<lparr>clients = [JObj [(''id'', JStr ''c1''), (''name'', JStr ''Ana'')],
                   JObj [(''id'', JStr ''c1''), (''name'', JStr ''Bob'')],
                   JObj [(''id'', JStr ''c3''), (''name'', JStr ''Cy'')]],
        stored = Document (JObj [(''clients'', JList
                  [JObj [(''id'', JStr ''c1''), (''name'', JStr ''Ana'')],
                   JObj [(''id'', JStr ''c1''), (''name'', JStr ''Bob'')],
                   JObj [(''id'', JStr ''c3''), (''name'', JStr ''Cy'')]])])\<rparr> ''c1'' ''Ana''
     = Inr \<lparr>clients = [JObj [(''id'', JStr ''c3''), (''name'', JStr ''Cy'')]],
        stored = Document (JObj [(''clients'', JList [JObj [(''id'', JStr ''c3''), (''name'', JStr ''Cy'')]])])\<rparr>"
  by (simp add: delete_client_def save_data_def)

section \<open>Notes: newest first\<close>

lemma find_client_list_update:
  "i < length cs \<Longrightarrow> getitem c' ''id'' = getitem (cs ! i) ''id'' \<Longrightarrow>
   find_client (cs[i := c']) wanted = find_client cs wanted"
proof (induction cs arbitrary: i)
  case Nil
  then show ?case by simp
next
  case (Cons c cs)
  show ?case
  proof (cases i)
    case 0
    with Cons.prems show ?thesis by simp
  next
    case (Suc j)
    with Cons.prems have eq: "find_client (cs[j := c']) wanted = find_client cs wanted"
      using Cons.IH [of j] by simp
    show ?thesis using Suc by (simp add: eq cong: if_cong)
  qed
qed

lemma add_note_found:
  assumes "find_client (clients st) (JStr sid) = Inr (Some i)"
    and "clients st ! i = JObj d"
    and "dict_get (JObj d) ''notes'' (JList []) = Inr (JList ns)"
    and "note_text \<noteq> []"
  shows "\<exists>d'. add_note st sid note_text now uuid =
       Inr \<lparr>clients = (clients st)[i := JObj d'],
            stored = Document (JObj [(''clients'', JList ((clients st)[i := JObj d']))])\<rparr> \<and>
     map_of d' = (map_of d)(''notes'' \<mapsto>
        JList (JObj [(''text'', JStr note_text), (''date'', JStr now), (''id'', JStr (take 8 uuid))] # ns))"
proof -
  let ?note = "JObj [(''text'', JStr note_text), (''date'', JStr now), (''id'', JStr (take 8 uuid))]"
  from find_client_Some [OF assms(1)] assms(2) obtain v where "map_of d ''id'' = Some v" by auto
  then have t: "truthy (JObj d)" by (rule truthy_dict_with_key)
  show ?thesis
  proof (cases "map_of d ''notes''")
    case None
    with assms(3) have ns: "ns = []" by simp
    let ?d' = "AList.update ''notes'' (JList (?note # ns)) (AList.update ''notes'' (JList []) d)"
    have "add_note st sid note_text now uuid =
       Inr \<lparr>clients = (clients st)[i := JObj ?d'],
            stored = Document (JObj [(''clients'', JList ((clients st)[i := JObj ?d']))])\<rparr>"
      using assms(1,2,4) t None ns
      by (simp add: add_note_def Let_def save_data_clients_list update_conv')
    moreover have "map_of ?d' = (map_of d)(''notes'' \<mapsto> JList (?note # ns))"
      by (simp add: update_conv')
    ultimately show ?thesis by blast
  next
    case (Some w)
    with assms(3) have w: "w = JList ns" by simp
    let ?d' = "AList.update ''notes'' (JList (?note # ns)) d"
    have "add_note st sid note_text now uuid =
       Inr \<lparr>clients = (clients st)[i := JObj ?d'],
            stored = Document (JObj [(''clients'', JList ((clients st)[i := JObj ?d']))])\<rparr>"
      using assms(1,2,4) t Some w
      by (simp add: add_note_def Let_def save_data_clients_list)
    moreover have "map_of ?d' = (map_of d)(''notes'' \<mapsto> JList (?note # ns))"
      by (simp add: update_conv')
    ultimately show ?thesis by blast
  qed
qed

text \<open>
  C6. Let \<open>selected_client_id\<close> select a client whose notes are the list \<open>ns\<close> (the empty
  list when the client has no \<^verbatim>\<open>notes\<close> field). Adding a note with text A and then a note
  with text B, both texts not empty, succeeds both times; each new note carries its text,
  the time of its creation and the first eight characters of a new UUID as its id; after
  the first addition the notes are A's note followed by \<open>ns\<close>, and after the second they
  are B's note at position 0, A's note at position 1, then \<open>ns\<close>; the file holds the new
  list.
\<close>

theorem add_note_newest_first:
  assumes "find_client (clients st) (JStr sid) = Inr (Some i)"
    and "dict_get (clients st ! i) ''notes'' (JList []) = Inr (JList ns)"
    and "text_a \<noteq> []" and "text_b \<noteq> []"
    and "length uuid_a = 36" and "length uuid_b = 36"
  shows "\<exists>st1 st2 d2 note_a note_b.
     add_note st sid text_a now_a uuid_a = Inr st1 \<and>
     add_note st1 sid text_b now_b uuid_b = Inr st2 \<and>
     note_a = JObj [(''text'', JStr text_a), (''date'', JStr now_a), (''id'', JStr (take 8 uuid_a))] \<and>
     note_b = JObj [(''text'', JStr text_b), (''date'', JStr now_b), (''id'', JStr (take 8 uuid_b))] \<and>
     length (take 8 uuid_a) = 8 \<and> length (take 8 uuid_b) = 8 \<and>
     getitem (clients st1 ! i) ''notes'' = Inr (JList (note_a # ns)) \<and>
     clients st2 ! i = JObj d2 \<and>
     map_of d2 ''notes'' = Some (JList (note_b # note_a # ns)) \<and>
     stored st2 = Document (JObj [(''clients'', JList (clients st2))])"
proof -
  let ?note_a = "JObj [(''text'', JStr text_a), (''date'', JStr now_a), (''id'', JStr (take 8 uuid_a))]"
  let ?note_b = "JObj [(''text'', JStr text_b), (''date'', JStr now_b), (''id'', JStr (take 8 uuid_b))]"
  from find_client_Some [OF assms(1)] obtain d where
    i: "i < length (clients st)" and d: "clients st ! i = JObj d" by blast
  from assms(2) d have ns0: "dict_get (JObj d) ''notes'' (JList []) = Inr (JList ns)" by simp
  from add_note_found [OF assms(1) d ns0 assms(3), of now_a uuid_a] obtain d1 where
    run1: "add_note st sid text_a now_a uuid_a =
       Inr \<lparr>clients = (clients st)[i := JObj d1],
            stored = Document (JObj [(''clients'', JList ((clients st)[i := JObj d1]))])\<rparr>"
    and d1: "map_of d1 = (map_of d)(''notes'' \<mapsto> JList (?note_a # ns))" by blast
  let ?cs1 = "(clients st)[i := JObj d1]"
  let ?st1 = "\<lparr>clients = ?cs1, stored = Document (JObj [(''clients'', JList ?cs1)])\<rparr>"
  have same_id: "getitem (JObj d1) ''id'' = getitem (clients st ! i) ''id''"
    using d d1 by simp
  have find1: "find_client (clients ?st1) (JStr sid) = Inr (Some i)"
    using find_client_list_update [OF i same_id] assms(1) by simp
  have at1: "clients ?st1 ! i = JObj d1" using i by simp
  have ns1: "dict_get (JObj d1) ''notes'' (JList []) = Inr (JList (?note_a # ns))"
    using d1 by simp
  from add_note_found [OF find1 at1 ns1 assms(4), of now_b uuid_b] obtain d2 where
    run2: "add_note ?st1 sid text_b now_b uuid_b =
       Inr \<lparr>clients = (clients ?st1)[i := JObj d2],
            stored = Document (JObj [(''clients'', JList ((clients ?st1)[i := JObj d2]))])\<rparr>"
    and d2: "map_of d2 = (map_of d1)(''notes'' \<mapsto> JList (?note_b # ?note_a # ns))" by blast
  let ?cs2 = "(clients ?st1)[i := JObj d2]"
  let ?st2 = "\<lparr>clients = ?cs2, stored = Document (JObj [(''clients'', JList ?cs2)])\<rparr>"
  have c1: "add_note st sid text_a now_a uuid_a = Inr ?st1" by (rule run1)
  have c2: "add_note ?st1 sid text_b now_b uuid_b = Inr ?st2" by (rule run2)
  have c3: "length (take 8 uuid_a) = 8" using assms(5) by simp
  have c4: "length (take 8 uuid_b) = 8" using assms(6) by simp
  have c5: "getitem (clients ?st1 ! i) ''notes'' = Inr (JList (?note_a # ns))"
    using at1 d1 by simp
  have c6: "clients ?st2 ! i = JObj d2" using i by simp
  have c7: "map_of d2 ''notes'' = Some (JList (?note_b # ?note_a # ns))" using d2 by simp
  have c8: "stored ?st2 = Document (JObj [(''clients'', JList (clients ?st2))])" by simp
  show ?thesis
    using c1 c2 c3 c4 c5 c6 c7 c8
    apply -
    apply (rule exI [of _ ?st1])
    apply (rule exI [of _ ?st2])
    apply (rule exI [of _ d2])
    apply (rule exI [of _ ?note_a])
    apply (rule exI [of _ ?note_b])
    apply (intro conjI)
    apply (assumption | rule refl)+
    done
qed

theorem add_note_newest_first_witness:
  "\<exists>st1 st2 d2.
     add_note \<lparr>clients = [JObj [(''id'', JStr ''c1''), (''name'', JStr ''Ana'')]], stored = Missing\<rparr>
       ''c1'' ''first call'' ''2024-01-05 09:00'' ''123e4567-e89b-42d3-a456-426614174000'' = Inr st1 \<and>
     add_note st1 ''c1'' ''sent quote'' ''2024-01-06 10:30'' ''9f8e7d6c-e89b-42d3-a456-426614174000'' = Inr st2 \<and>
     clients st2 ! 0 = JObj d2 \<and>
     map_of d2 ''notes'' = Some (JList
       [JObj [(''text'', JStr ''sent quote''), (''date'', JStr ''2024-01-06 10:30''), (''id'', JStr ''9f8e7d6c'')],
        JObj [(''text'', JStr ''first call''), (''date'', JStr ''2024-01-05 09:00''), (''id'', JStr ''123e4567'')]])"
proof -
  let ?st = "\<lparr>clients = [JObj [(''id'', JStr ''c1''), (''name'', JStr ''Ana'')]], stored = Missing\<rparr>"
  have h1: "find_client (clients ?st) (JStr ''c1'') = Inr (Some 0)" by simp
  have h2: "dict_get (clients ?st ! 0) ''notes'' (JList []) = Inr (JList [])" by simp
  have h3: "''first call'' \<noteq> []" by simp
  have h4: "''sent quote'' \<noteq> []" by simp
  have h5: "length ''123e4567-e89b-42d3-a456-426614174000'' = 36" by simp
  have h6: "length ''9f8e7d6c-e89b-42d3-a456-426614174000'' = 36" by simp
  from add_note_newest_first [OF h1 h2 h3 h4 h5 h6, of "''2024-01-05 09:00''" "''2024-01-06 10:30''"]
  obtain st1 st2 d2 note_a note_b where
    r: "add_note ?st ''c1'' ''first call'' ''2024-01-05 09:00'' ''123e4567-e89b-42d3-a456-426614174000'' = Inr st1"
       "add_note st1 ''c1'' ''sent quote'' ''2024-01-06 10:30'' ''9f8e7d6c-e89b-42d3-a456-426614174000'' = Inr st2"
       "note_a = JObj [(''text'', JStr ''first call''), (''date'', JStr ''2024-01-05 09:00''),
                       (''id'', JStr (take 8 ''123e4567-e89b-42d3-a456-426614174000''))]"
       "note_b = JObj [(''text'', JStr ''sent quote''), (''date'', JStr ''2024-01-06 10:30''),
                       (''id'', JStr (take 8 ''9f8e7d6c-e89b-42d3-a456-426614174000''))]"
       "clients st2 ! 0 = JObj d2"
       "map_of d2 ''notes'' = Some (JList (note_b # note_a # []))"
    by blast
  from r(3,4,6) have "map_of d2 ''notes'' = Some (JList
       [JObj [(''text'', JStr ''sent quote''), (''date'', JStr ''2024-01-06 10:30''), (''id'', JStr ''9f8e7d6c'')],
        JObj [(''text'', JStr ''first call''), (''date'', JStr ''2024-01-05 09:00''), (''id'', JStr ''123e4567'')]])"
    by simp
  with r(1,2,5) show ?thesis by blast
qed

section \<open>Task list: deleting a task\<close>

text \<open>
  C4 (fails on the code). Deleting a task is meant to remove the task at the position
  asked for, also when several tasks have the same description. The handler of the delete
  button looks the task up again by its description and removes the first task of the
  client with that description. Here the client has two tasks described \<^verbatim>\<open>Call\<close>, of low
  priority at position 0 and of high priority at position 1; the button of the second
  entry of the task list removes the task at position 0 and keeps the one at position 1.
\<close>

theorem delete_task_removes_first_match:
  "all_tasks
     [JObj [(''id'', JStr ''c1''), (''name'', JStr ''Ana''),
            (''tasks'', JList [JObj [(''task'', JStr ''Call''), (''priority'', JStr ''Low'')],
                               JObj [(''task'', JStr ''Call''), (''priority'', JStr ''High'')]])]]
   = Inr [\<lparr>client_id = JStr ''c1'', client_name = JStr ''Ana'', task = JStr ''Call'',
           completed = JBool False, due_date = JStr [], priority = JStr ''Low''\<rparr>,
          \<lparr>client_id = JStr ''c1'', client_name = JStr ''Ana'', task = JStr ''Call'',
           completed = JBool False, due_date = JStr [], priority = JStr ''High''\<rparr>]
   \<and> delete_task
     \<lparr>clients = [JObj [(''id'', JStr ''c1''), (''name'', JStr ''Ana''),
            (''tasks'', JList [JObj [(''task'', JStr ''Call''), (''priority'', JStr ''Low'')],
                               JObj [(''task'', JStr ''Call''), (''priority'', JStr ''High'')]])]],
      stored = Missing\<rparr>
     \<lparr>client_id = JStr ''c1'', client_name = JStr ''Ana'', task = JStr ''Call'',
           completed = JBool False, due_date = JStr [], priority = JStr ''High''\<rparr>
   = Inr \<lparr>clients = [JObj [(''id'', JStr ''c1''), (''name'', JStr ''Ana''),
            (''tasks'', JList [JObj [(''task'', JStr ''Call''), (''priority'', JStr ''High'')]])]],
      stored = Document (JObj [(''clients'', JList [JObj [(''id'', JStr ''c1''), (''name'', JStr ''Ana''),
            (''tasks'', JList [JObj [(''task'', JStr ''Call''), (''priority'', JStr ''High'')]])]])])\<rparr>"
  by (simp add: all_tasks_def tasks_of_client_def task_row_of_def delete_task_def save_data_def Let_def)

section \<open>Dashboard: clients per status\<close>

lemma count_status_length:
  "map_result (\<lambda>c. getitem c ''status'') cs = Inr vs \<Longrightarrow>
   count_status cs s = Inr (length (filter (\<lambda>v. v = JStr s) vs))"
  by (simp add: count_status_def)

lemma three_way_count:
  "length (filter (\<lambda>v. v = a) vs) + length (filter (\<lambda>v. v = b) vs) + length (filter (\<lambda>v. v = c) vs)
     + length (filter (\<lambda>v. v \<noteq> a \<and> v \<noteq> b \<and> v \<noteq> c) vs) = length vs"
  if "a \<noteq> b" "a \<noteq> c" "b \<noteq> c"
  using that by (induction vs) auto

text \<open>
  C8 (as amended). When every client has a \<^verbatim>\<open>status\<close> field, the status aggregation of
  the dashboard returns whatever the values of the field are. It has the three entries
  Lead, Active and Inactive and no other: a client whose status is none of the three is
  counted in no entry, so the three counts add up to the number of clients less the
  number of clients with such a status.
\<close>

theorem status_counts_cover_recognised_only:
  assumes "map_result (\<lambda>c. getitem c ''status'') cs = Inr vs"
  shows "\<exists>num_leads num_active num_inactive.
     status_counts cs = Inr [(''Lead'', num_leads), (''Active'', num_active), (''Inactive'', num_inactive)] \<and>
     num_leads = length (filter (\<lambda>v. v = JStr ''Lead'') vs) \<and>
     num_active = length (filter (\<lambda>v. v = JStr ''Active'') vs) \<and>
     num_inactive = length (filter (\<lambda>v. v = JStr ''Inactive'') vs) \<and>
     num_leads + num_active + num_inactive
       + length (filter (\<lambda>v. v \<noteq> JStr ''Lead'' \<and> v \<noteq> JStr ''Active'' \<and> v \<noteq> JStr ''Inactive'') vs)
       = num_clients cs"
proof -
  from map_result_Inr [OF assms] have len: "length vs = length cs" by simp
  have "status_counts cs = Inr [(''Lead'', length (filter (\<lambda>v. v = JStr ''Lead'') vs)),
      (''Active'', length (filter (\<lambda>v. v = JStr ''Active'') vs)),
      (''Inactive'', length (filter (\<lambda>v. v = JStr ''Inactive'') vs))]"
    by (simp add: status_counts_def count_status_length [OF assms])
  moreover have "length (filter (\<lambda>v. v = JStr ''Lead'') vs) + length (filter (\<lambda>v. v = JStr ''Active'') vs)
      + length (filter (\<lambda>v. v = JStr ''Inactive'') vs)
      + length (filter (\<lambda>v. v \<noteq> JStr ''Lead'' \<and> v \<noteq> JStr ''Active'' \<and> v \<noteq> JStr ''Inactive'') vs)
      = num_clients cs"
    using three_way_count [of "JStr ''Lead''" "JStr ''Active''" "JStr ''Inactive''" vs] len
    by (simp add: num_clients_def)
  ultimately show ?thesis by blast
qed

theorem status_counts_cover_recognised_only_witness:
  "status_counts [JObj [(''id'', JStr ''c1''), (''status'', JStr ''Lead'')],
                  JObj [(''id'', JStr ''c2''), (''status'', JStr ''Prospect'')],
                  JObj [(''id'', JStr ''c3''), (''status'', JStr ''Active'')]]
     = Inr [(''Lead'', 1), (''Active'', 1), (''Inactive'', 0)]"
proof -
  let ?cs = "[JObj [(''id'', JStr ''c1''), (''status'', JStr ''Lead'')],
              JObj [(''id'', JStr ''c2''), (''status'', JStr ''Prospect'')],
              JObj [(''id'', JStr ''c3''), (''status'', JStr ''Active'')]]"
  have h: "map_result (\<lambda>c. getitem c ''status'') ?cs = Inr [JStr ''Lead'', JStr ''Prospect'', JStr ''Active'']"
    by simp
  from status_counts_cover_recognised_only [OF h] show ?thesis by simp
qed

text \<open>
  The claim as first stated fails: of two clients, one a lead and one with the status
  \<^verbatim>\<open>Prospect\<close>, the aggregation counts one lead and nothing else; the second client
  appears under no category, and no category for unknown values exists.
\<close>

theorem status_counts_counterexample:
  "status_counts [JObj [(''id'', JStr ''c1''), (''status'', JStr ''Lead'')],
                  JObj [(''id'', JStr ''c2''), (''status'', JStr ''Prospect'')]]
     = Inr [(''Lead'', 1), (''Active'', 0), (''Inactive'', 0)]
   \<and> num_clients [JObj [(''id'', JStr ''c1''), (''status'', JStr ''Lead'')],
                  JObj [(''id'', JStr ''c2''), (''status'', JStr ''Prospect'')]] = 2"
  by (simp add: status_counts_def count_status_def num_clients_def)

end
